theory Spec2Isabelle
  imports Main
begin

section \<open>The health endpoint of \<^verbatim>\<open>backend-python/main.py\<close>\<close>

text \<open>
  The module is glue around two libraries: it makes an application object, hands it one
  middleware with four options, registers one route and, when run as a program, prints
  two lines and hands the application to the server. The embedding keeps that boundary:
  what the module computes itself (the handler's value, the option values, the order of
  its calls, the banner text, host and port) is defined here from the source; what the
  libraries do with it is a parameter of the model.
\<close>

subsection \<open>The handler\<close>

text \<open>
  \<^verbatim>\<open>
  @app.get("/health")
  async def health():
      return {"status": "ok", "service": "python-backend"}
  \<close>
  A Python dict keeps insertion order, so an object is an association list.
\<close>

datatype json = JStr string | JObj "(string \<times> json) list"

definition health :: "unit \<Rightarrow> json" where
  "health _ = JObj [(''status'', JStr ''ok''), (''service'', JStr ''python-backend'')]"

fun members :: "json \<Rightarrow> (string \<times> json) list" where
  "members (JObj kvs) = kvs"
| "members (JStr _) = []"

record request =
  req_method :: string
  req_path :: string
  path_params :: "(string \<times> string) list"
  query_params :: "(string \<times> string) list"
  req_headers :: "(string \<times> string) list"
  req_body :: string

record response =
  status_code :: nat
  body :: json

text \<open>
  Modelled from the spec: the status the framework gives to a route whose decorator names
  no status code and whose handler returns normally. The framework's code is not part of
  the repository; the spec gives the value ("Output: HTTP 200").
\<close>

definition default_status_code :: nat where
  "default_status_code = 200"

text \<open>
  One invocation of the route. The handler declares no parameter, so nothing of the request
  is passed to it; it names no global, so the process state \<open>'s\<close> goes through untouched.
  The state type is a type variable: the function cannot look inside it.
\<close>

definition health_call :: "request \<Rightarrow> 's \<Rightarrow> response \<times> 's" where
  "health_call req s = (\<lparr>status_code = default_status_code, body = health ()\<rparr>, s)"

text \<open>A run of calls, one after the other, on the state the call before left.\<close>

fun health_calls :: "request list \<Rightarrow> 's \<Rightarrow> response list \<times> 's" where
  "health_calls [] s = ([], s)"
| "health_calls (r # rs) s =
     (case health_call r s of (resp, s') \<Rightarrow>
        (case health_calls rs s' of (resps, s'') \<Rightarrow> (resp # resps, s'')))"

subsection \<open>The CORS options\<close>

text \<open>
  \<^verbatim>\<open>
  app.add_middleware(
      CORSMiddleware,
      allow_origins=["*"],
      allow_credentials=True,
      allow_methods=["*"],
      allow_headers=["*"],
  )
  \<close>
\<close>

record cors_options =
  allow_origins :: "string list"
  allow_credentials :: bool
  allow_methods :: "string list"
  allow_headers :: "string list"

definition cors_policy :: cors_options where
  "cors_policy =
     \<lparr>allow_origins = [''*''], allow_credentials = True,
      allow_methods = [''*''], allow_headers = [''*'']\<rparr>"

text \<open>
  Modelled from the spec: what an option list allows. The middleware class is the
  library's; the spec reads the entry \<^verbatim>\<open>"*"\<close> as "any" ("Allow requests from any
  origin", "Allow any HTTP method and any request header"), and a list without it allows
  what it names.
\<close>

definition allowed :: "string list \<Rightarrow> string \<Rightarrow> bool" where
  "allowed xs x = (''*'' \<in> set xs \<or> x \<in> set xs)"

subsection \<open>Running the module\<close>

text \<open>
  What the module does is the sequence of its calls into the libraries and of its prints.
  Imports and the \<^verbatim>\<open>def\<close> only bind names and are not events.
\<close>

datatype endpoint = Health

fun call_endpoint :: "endpoint \<Rightarrow> json" where
  "call_endpoint Health = health ()"

datatype event =
    FastAPI_init
  | Add_middleware cors_options
  | Add_api_route string "string list" endpoint
  | Print string
  | Uvicorn_run string nat
  | Bind string nat
  | Listening string nat
  | Accepted request

datatype error = Startup_failure | Unicode_encode_error

text \<open>
  The two banners, as the bytes of the source file: each starts with a character outside
  ASCII (four bytes of UTF-8 in the first, three in the second) and a space.
\<close>

definition banner_starting :: string where
  "banner_starting =
     [CHR 0xF0, CHR 0x9F, CHR 0x9A, CHR 0x80] @ '' Starting Python Backend...''"

definition banner_running :: string where
  "banner_running =
     [CHR 0xE2, CHR 0x9C, CHR 0x85] @ '' Server running on http://localhost:8000''"

text \<open>
  The process environment the module runs in, and the network it runs on. The module
  never names the command line, the environment variables or a file. It does write text
  to standard output, and that stream has the encoding the interpreter chose at its start
  (from the locale, or from \<^verbatim>\<open>PYTHONIOENCODING\<close>): \<open>stdout_encodes\<close> says which texts
  the stream can encode.
\<close>

record network =
  can_bind :: "string \<Rightarrow> nat \<Rightarrow> bool"
  incoming :: "request list"

record environment =
  argv :: "string list"
  environ :: "(string \<times> string) list"
  files :: "(string \<times> string) list"
  stdout_encodes :: "string \<Rightarrow> bool"
  net :: network

text \<open>
  Two streams: one encoded in UTF-8, which takes every text, and one encoded in ASCII,
  which takes a text only when every byte of it is below 128.
\<close>

fun utf8_encodable :: "string \<Rightarrow> bool" where
  "utf8_encodable s = True"

fun ascii_encodable :: "string \<Rightarrow> bool" where
  "ascii_encodable [] = True"
| "ascii_encodable (c # cs) = ((of_char c :: nat) < 128 \<and> ascii_encodable cs)"

text \<open>
  \<^verbatim>\<open>print(s)\<close>: the text is encoded first and written then. A stream that cannot encode
  it raises \<^verbatim>\<open>UnicodeEncodeError\<close> and nothing is written.
\<close>

definition print_line :: "environment \<Rightarrow> string \<Rightarrow> (error + unit) \<times> event list" where
  "print_line env s =
     (if stdout_encodes env s then (Inr (), [Print s]) else (Inl Unicode_encode_error, []))"

text \<open>
  The server is a parameter: given host and port it returns how the call ended and the
  events it caused.
\<close>

type_synonym server = "string \<Rightarrow> nat \<Rightarrow> (error + unit) \<times> event list"

text \<open>
  \<^verbatim>\<open>
  app = FastAPI()
  app.add_middleware(CORSMiddleware, ...)
  @app.get("/health") ...
  if __name__ == "__main__":
      import uvicorn
      print(...)
      print(...)
      uvicorn.run(app, host="0.0.0.0", port=8000)
  \<close>
  No statement stands in a \<^verbatim>\<open>try\<close> or in a loop. A print that raises ends the module
  there, before the statements after it; the call of the server is the last statement,
  and however it ends, the module ends the same way. The imported libraries are taken to
  be installed.
\<close>

definition module_top :: "event list" where
  "module_top =
     [FastAPI_init, Add_middleware cors_policy, Add_api_route ''/health'' [''GET''] Health]"

definition run_module :: "server \<Rightarrow> environment \<Rightarrow> string \<Rightarrow> (error + unit) \<times> event list" where
  "run_module srv env name =
     (if name = ''__main__'' then
        (case print_line env banner_starting of
           (Inl e, evs1) \<Rightarrow> (Inl e, module_top @ evs1)
         | (Inr u1, evs1) \<Rightarrow>
             (case print_line env banner_running of
                (Inl e, evs2) \<Rightarrow> (Inl e, module_top @ evs1 @ evs2)
              | (Inr u2, evs2) \<Rightarrow>
                  (case srv ''0.0.0.0'' 8000 of
                     (r, evs) \<Rightarrow>
                       (r, module_top @ evs1 @ evs2 @ [Uvicorn_run ''0.0.0.0'' 8000] @ evs))))
      else (Inr (), module_top))"

text \<open>
  Modelled from the spec: the server's start. The server is a library, not code of the
  repository; the spec says "On successful bind, begins accepting connections; on
  port-in-use or permission failure, the process fails to start (fatal, no retry)".
\<close>

definition uvicorn_run :: "network \<Rightarrow> server" where
  "uvicorn_run nw host port =
     (if can_bind nw host port
      then (Inr (), [Bind host port, Listening host port] @ map Accepted (incoming nw))
      else (Inl Startup_failure, [Bind host port]))"

text \<open>
  Concrete surroundings for the examples: a network on which every bind succeeds, and a
  run of the program with \<^verbatim>\<open>PYTHONIOENCODING=ascii\<close>, where standard output is ASCII.
\<close>

definition free_network :: network where
  "free_network = \<lparr>can_bind = (\<lambda>h p. True), incoming = []\<rparr>"

definition ascii_environment :: environment where
  "ascii_environment =
     \<lparr>argv = [''main.py''], environ = [(''PYTHONIOENCODING'', ''ascii'')], files = [],
      stdout_encodes = ascii_encodable, net = free_network\<rparr>"

definition utf8_environment :: environment where
  "utf8_environment =
     \<lparr>argv = [''main.py''], environ = [(''PYTHONIOENCODING'', ''utf-8'')], files = [],
      stdout_encodes = utf8_encodable, net = free_network\<rparr>"

text \<open>Reading a trace.\<close>

fun printed :: "event list \<Rightarrow> string list" where
  "printed [] = []"
| "printed (Print s # es) = s # printed es"
| "printed (_ # es) = printed es"

fun middlewares :: "event list \<Rightarrow> cors_options list" where
  "middlewares [] = []"
| "middlewares (Add_middleware c # es) = c # middlewares es"
| "middlewares (_ # es) = middlewares es"

fun server_calls :: "event list \<Rightarrow> (string \<times> nat) list" where
  "server_calls [] = []"
| "server_calls (Uvicorn_run h p # es) = (h, p) # server_calls es"
| "server_calls (_ # es) = server_calls es"

fun binds :: "event list \<Rightarrow> (string \<times> nat) list" where
  "binds [] = []"
| "binds (Bind h p # es) = (h, p) # binds es"
| "binds (_ # es) = binds es"

fun accepted :: "event list \<Rightarrow> request list" where
  "accepted [] = []"
| "accepted (Accepted r # es) = r # accepted es"
| "accepted (_ # es) = accepted es"

fun listening :: "event list \<Rightarrow> (string \<times> nat) list" where
  "listening [] = []"
| "listening (Listening h p # es) = (h, p) # listening es"
| "listening (_ # es) = listening es"

section \<open>Properties\<close>

subsection \<open>Facts about the model\<close>

lemma health_call_eq:
  "health_call req s
     = (\<lparr>status_code = 200,
         body = JObj [(''status'', JStr ''ok''), (''service'', JStr ''python-backend'')]\<rparr>, s)"
  by (simp add: health_call_def health_def default_status_code_def)

lemma health_calls_eq:
  "health_calls rs s
     = (replicate (length rs)
          \<lparr>status_code = 200,
           body = JObj [(''status'', JStr ''ok''), (''service'', JStr ''python-backend'')]\<rparr>, s)"
proof (induction rs arbitrary: s)
  case Nil
  show ?case by simp
next
  case (Cons r rs)
  show ?case by (simp add: Cons.IH health_call_eq)
qed

lemma accepted_map_Accepted: "accepted (map Accepted rs) = rs"
  by (induction rs) simp_all

lemma listening_map_Accepted: "listening (map Accepted rs) = []"
  by (induction rs) simp_all

lemma run_module_main:
  "stdout_encodes env banner_starting \<Longrightarrow> stdout_encodes env banner_running \<Longrightarrow>
   run_module srv env ''__main__''
     = (fst (srv ''0.0.0.0'' 8000),
        module_top
          @ [Print banner_starting, Print banner_running, Uvicorn_run ''0.0.0.0'' 8000]
          @ snd (srv ''0.0.0.0'' 8000))"
  by (simp add: run_module_def print_line_def split: prod.split)

lemma run_module_first_print_fails:
  "\<not> stdout_encodes env banner_starting \<Longrightarrow>
   run_module srv env ''__main__'' = (Inl Unicode_encode_error, module_top)"
  by (simp add: run_module_def print_line_def)

lemma run_module_second_print_fails:
  "stdout_encodes env banner_starting \<Longrightarrow> \<not> stdout_encodes env banner_running \<Longrightarrow>
   run_module srv env ''__main__''
     = (Inl Unicode_encode_error, module_top @ [Print banner_starting])"
  by (simp add: run_module_def print_line_def)

lemma run_module_prefix: "take 3 (snd (run_module srv env name)) = module_top"
  by (simp add: run_module_def print_line_def module_top_def split: prod.split sum.split)

lemma banner_starting_not_ascii: "\<not> ascii_encodable banner_starting"
  by (simp add: banner_starting_def)

lemma banner_running_not_ascii: "\<not> ascii_encodable banner_running"
  by (simp add: banner_running_def)

lemma run_module_import:
  "name \<noteq> ''__main__'' \<Longrightarrow> run_module srv env name = (Inr (), module_top)"
  by (simp add: run_module_def)

text \<open>
  The module calls the server once and keeps nothing back: when the call fails, the module
  has failed with the same error, whatever the server is.
\<close>

lemma server_failure_passes_through:
  "stdout_encodes env banner_starting \<Longrightarrow> stdout_encodes env banner_running \<Longrightarrow>
   fst (srv ''0.0.0.0'' 8000) = Inl e \<Longrightarrow> fst (run_module srv env ''__main__'') = Inl e"
  by (simp add: run_module_main)

text \<open>
  The server as the spec describes it does serve when the bind succeeds: it listens on the
  address it was given and accepts what comes in.
\<close>

lemma bind_success_serves:
  "stdout_encodes env banner_starting \<Longrightarrow> stdout_encodes env banner_running \<Longrightarrow>
   can_bind nw ''0.0.0.0'' 8000 \<Longrightarrow>
   fst (run_module (uvicorn_run nw) env ''__main__'') = Inr ()
   \<and> listening (snd (run_module (uvicorn_run nw) env ''__main__'')) = [(''0.0.0.0'', 8000)]
   \<and> accepted (snd (run_module (uvicorn_run nw) env ''__main__'')) = incoming nw"
  by (simp add: run_module_main uvicorn_run_def module_top_def accepted_map_Accepted
      listening_map_Accepted)

subsection \<open>The claims\<close>

text \<open>
  C1. Every invocation of the operation behind GET /health answers with status 200 and a
  body that is the object with the two members status = "ok" and service =
  "python-backend": the member list is those two pairs, the keys are exactly those two,
  and each maps to its fixed string. The operation is the endpoint of the route the
  module registers for GET on /health.
\<close>

theorem health_response_exact:
  "status_code (fst (health_call req s)) = 200
   \<and> body (fst (health_call req s))
       = JObj [(''status'', JStr ''ok''), (''service'', JStr ''python-backend'')]
   \<and> length (members (body (fst (health_call req s)))) = 2
   \<and> dom (map_of (members (body (fst (health_call req s))))) = {''status'', ''service''}
   \<and> map_of (members (body (fst (health_call req s)))) ''status'' = Some (JStr ''ok'')
   \<and> map_of (members (body (fst (health_call req s)))) ''service''
       = Some (JStr ''python-backend'')
   \<and> call_endpoint Health = body (fst (health_call req s))
   \<and> module_top ! 2 = Add_api_route ''/health'' [''GET''] Health"
  by (auto simp: health_call_def health_def default_status_code_def module_top_def)

text \<open>
  C2. The handler is deterministic and stateless. Any two calls, on any requests and in
  any states, give the same response, with status 200; a call returns the state it was
  given; and a run of any number of calls gives that same response every time and leaves
  the state as it was.
\<close>

theorem health_deterministic_stateless:
  "fst (health_call r1 s1) = fst (health_call r2 s2)
   \<and> status_code (fst (health_call r1 s1)) = 200
   \<and> snd (health_call r1 s1) = s1
   \<and> fst (health_calls rs s) = replicate (length rs) (fst (health_call r1 s1))
   \<and> snd (health_calls rs s) = s"
  by (simp add: health_calls_eq health_call_eq)

text \<open>
  C4. The one middleware the module installs has the policy that allows every origin,
  allows credentials, allows every method and allows every header, all four at once; it
  is installed in every run of the module, as a program or as an import, before the
  route is registered and before any server is started.
\<close>

theorem cors_policy_allows_everything:
  "allowed (allow_origins cors_policy) origin
   \<and> allow_credentials cors_policy
   \<and> allowed (allow_methods cors_policy) method
   \<and> allowed (allow_headers cors_policy) header
   \<and> middlewares module_top = [cors_policy]
   \<and> take 3 (snd (run_module srv env name)) = module_top
   \<and> take 2 module_top = [FastAPI_init, Add_middleware cors_policy]"
  by (simp add: allowed_def cors_policy_def module_top_def run_module_prefix [unfolded module_top_def])

text \<open>
  C7. The response of the handler does not depend on the request: two calls on any two
  requests give the same result, and changing the path parameters, the query parameters,
  the headers and the body of a request changes nothing.
\<close>

theorem health_ignores_request:
  "health_call r1 s = health_call r2 s
   \<and> health_call (r\<lparr>path_params := pp, query_params := q, req_headers := h,
                      req_body := b\<rparr>) s = health_call r s"
  by (simp add: health_call_def)




text \<open>
  C9. When the bind of port 8000 on host 0.0.0.0 fails, the run of the program ends in
  the startup failure: the server was called once and tried the bind once (no retry), it
  never listened, and no request was accepted. The program reaches the bind only after
  its two prints, so the run is one whose standard output took both banners.
\<close>

theorem bind_failure_is_fatal:
  assumes "\<not> can_bind nw ''0.0.0.0'' 8000"
    and "stdout_encodes env banner_starting" and "stdout_encodes env banner_running"
  shows "fst (run_module (uvicorn_run nw) env ''__main__'') = Inl Startup_failure
   \<and> server_calls (snd (run_module (uvicorn_run nw) env ''__main__'')) = [(''0.0.0.0'', 8000)]
   \<and> binds (snd (run_module (uvicorn_run nw) env ''__main__'')) = [(''0.0.0.0'', 8000)]
   \<and> listening (snd (run_module (uvicorn_run nw) env ''__main__'')) = []
   \<and> accepted (snd (run_module (uvicorn_run nw) env ''__main__'')) = []"
  using assms by (simp add: run_module_main uvicorn_run_def module_top_def)

theorem bind_failure_is_fatal_witness:
  "\<not> can_bind \<lparr>can_bind = (\<lambda>h p. p \<noteq> 8000),
       incoming = [\<lparr>req_method = ''GET'', req_path = ''/health'', path_params = [],
                    query_params = [], req_headers = [], req_body = []\<rparr>]\<rparr> ''0.0.0.0'' 8000
   \<and> stdout_encodes utf8_environment banner_starting
   \<and> stdout_encodes utf8_environment banner_running
   \<and> fst (run_module
        (uvicorn_run \<lparr>can_bind = (\<lambda>h p. p \<noteq> 8000),
           incoming = [\<lparr>req_method = ''GET'', req_path = ''/health'', path_params = [],
                        query_params = [], req_headers = [], req_body = []\<rparr>]\<rparr>)
        utf8_environment ''__main__'') = Inl Startup_failure
   \<and> accepted (snd (run_module
        (uvicorn_run \<lparr>can_bind = (\<lambda>h p. p \<noteq> 8000),
           incoming = [\<lparr>req_method = ''GET'', req_path = ''/health'', path_params = [],
                        query_params = [], req_headers = [], req_body = []\<rparr>]\<rparr>)
        utf8_environment ''__main__'')) = []"
  using bind_failure_is_fatal
    [of "\<lparr>can_bind = (\<lambda>h p. p \<noteq> 8000),
          incoming = [\<lparr>req_method = ''GET'', req_path = ''/health'', path_params = [],
                       query_params = [], req_headers = [], req_body = []\<rparr>]\<rparr>"
        utf8_environment]
  by (simp add: utf8_environment_def)

text \<open>
  C10. Imported under any name other than \<^verbatim>\<open>__main__\<close>, the module makes the
  application, adds the CORS middleware and registers the route GET /health, and does
  nothing more: it ends normally, prints nothing, calls no server and binds no port.
\<close>

theorem import_only_builds_app:
  assumes "name \<noteq> ''__main__''"
  shows "run_module srv env name
           = (Inr (), [FastAPI_init, Add_middleware cors_policy,
                       Add_api_route ''/health'' [''GET''] Health])
   \<and> printed (snd (run_module srv env name)) = []
   \<and> server_calls (snd (run_module srv env name)) = []
   \<and> binds (snd (run_module srv env name)) = []
   \<and> listening (snd (run_module srv env name)) = []"
  using assms by (simp add: run_module_import module_top_def)

theorem import_only_builds_app_witness:
  "''main'' \<noteq> ''__main__''
   \<and> run_module (uvicorn_run free_network) ascii_environment ''main''
       = (Inr (), [FastAPI_init, Add_middleware cors_policy,
                   Add_api_route ''/health'' [''GET''] Health])"
  using import_only_builds_app [of "''main''" "uvicorn_run free_network" ascii_environment]
  by simp

end
